theory Spec2Isabelle
  imports Complex_Main
begin

section \<open>JavaScript values used by the handlers\<close>

text \<open>
  The three pages of the application (Upload in \<^verbatim>\<open>src/unnamed/part_000\<close>, History and
  Scan in \<^verbatim>\<open>src/src/pages/History.tsx\<close>) are React components whose event handlers
  talk to three remote collaborators (object storage, the analysis function, the record
  store) and to the camera. Each handler is embedded as a function from the component
  state and the state of the outside world to the new pair; what the collaborators
  answer during one run of a handler is an explicit argument. \<^verbatim>\<open>startCamera\<close>, whose
  \<^verbatim>\<open>await\<close> lets other handlers of the Scan page run before it goes on, is embedded in two
  parts, before and after the \<^verbatim>\<open>await\<close>.
\<close>

type_synonym blob = string

text \<open>An error object; only its \<^verbatim>\<open>message\<close> is read (it may be missing).\<close>

datatype error = Error (message: "string option")

text \<open>Reading a property of \<^verbatim>\<open>null\<close> throws a TypeError, which carries a message.\<close>

definition TypeError :: error where
  "TypeError = Error (Some ''Cannot read properties of null'')"

text \<open>A \<^verbatim>\<open>string | null | undefined\<close> in a condition: null, undefined and the empty
  string are falsy.\<close>

definition truthy :: "string option \<Rightarrow> bool" where
  "truthy v = (case v of None \<Rightarrow> False | Some s \<Rightarrow> s \<noteq> [])"

text \<open>\<^verbatim>\<open>error.message || dflt\<close>\<close>

definition message_or :: "error \<Rightarrow> string \<Rightarrow> string" where
  "message_or e dflt = (if truthy (message e) then the (message e) else dflt)"

text \<open>\<^verbatim>\<open>s.split(sep)\<close>: the segments of \<open>s\<close> between the occurrences of \<open>sep\<close>, found
  from the left; \<open>acc\<close> is the current segment, reversed.\<close>

fun split_from :: "string \<Rightarrow> string \<Rightarrow> string \<Rightarrow> string list" where
  "split_from sep acc [] = [rev acc]"
| "split_from sep acc (c # cs) =
     (if take (length sep) (c # cs) = sep
      then rev acc # split_from sep [] (drop (length sep - 1) cs)
      else split_from sep (c # acc) cs)"

definition js_split :: "string \<Rightarrow> string \<Rightarrow> string list" where
  "js_split sep s = (if sep = [] then map (\<lambda>c. [c]) s else split_from sep [] s)"

text \<open>\<^verbatim>\<open>xs.pop()\<close> and \<^verbatim>\<open>xs[i]\<close> give \<^verbatim>\<open>undefined\<close> (here \<open>None\<close>) when there is no such
  element.\<close>

definition pop :: "'a list \<Rightarrow> 'a option" where
  "pop xs = (if xs = [] then None else Some (last xs))"

definition at_index :: "'a list \<Rightarrow> nat \<Rightarrow> 'a option" where
  "at_index xs i = (if i < length xs then Some (xs ! i) else None)"

text \<open>A value inside a template literal: \<^verbatim>\<open>undefined\<close> prints as that word, a number in
  decimal.\<close>

definition template :: "string option \<Rightarrow> string" where
  "template v = (case v of None \<Rightarrow> ''undefined'' | Some s \<Rightarrow> s)"

definition digit_char :: "nat \<Rightarrow> char" where
  "digit_char d = ''0123456789'' ! d"

fun string_of_nat :: "nat \<Rightarrow> string" where
  "string_of_nat n =
     (if n < 10 then [digit_char n]
      else string_of_nat (n div 10) @ [digit_char (n mod 10)])"

declare string_of_nat.simps [simp del]

text \<open>\<^verbatim>\<open>Math.round\<close>: the nearest integer, a tie going up. Confidence scores are JavaScript
  numbers; they are modelled as reals, the handlers store them without any arithmetic.\<close>

definition Math_round :: "real \<Rightarrow> int" where
  "Math_round x = \<lfloor>x + 1 / 2\<rfloor>"

section \<open>Data model\<close>

text \<open>The signed-in user; \<open>uid\<close> is \<^verbatim>\<open>user.id\<close>, the only field the handlers read.\<close>

record User =
  uid :: string

text \<open>The selected \<^verbatim>\<open>File\<close>: its name and its bytes.\<close>

record File =
  name :: string
  content :: blob

text \<open>The \<^verbatim>\<open>data\<close> of the analysis function's reply (typed \<^verbatim>\<open>any\<close> in the source): an
  object whose four fields may each be missing.\<close>

record analysis_data =
  disease :: "string option"
  diagnosis :: "string option"
  recommendations :: "string option"
  confidence :: "real option"

text \<open>The object handed to \<^verbatim>\<open>from('plant_scans').insert\<close>. The columns \<^verbatim>\<open>diagnosis\<close> and
  \<^verbatim>\<open>recommendations\<close> are prefixed, the reply's fields have these names already.\<close>

record scan_insert =
  user_id :: string
  image_url :: string
  disease_detected :: "string option"
  scan_diagnosis :: "string option"
  scan_recommendations :: "string option"
  confidence_score :: "real option"

text \<open>A row of \<^verbatim>\<open>plant_scans\<close>: the id the store gave it and the inserted columns.\<close>

type_synonym scan = "string \<times> scan_insert"

datatype toast = ToastSuccess string | ToastError string

text \<open>The requests a handler sends out, in the order they are sent.\<close>

datatype call =
    StorageUpload string blob
  | FunctionsInvoke string
  | DbInsert scan_insert
  | StorageRemove "string list"
  | DbDelete string
  | GetUserMedia
  | StopTracks nat

text \<open>The world outside the components: the objects of the bucket \<^verbatim>\<open>plant-images\<close> by
  path, the rows of \<^verbatim>\<open>plant_scans\<close> in insertion order, the requests sent so far, the
  toasts shown, the console, the device streams whose tracks are live, and the number
  the device gives its next stream.\<close>

record world =
  objects :: "string \<rightharpoonup> blob"
  plant_scans :: "scan list"
  calls :: "call list"
  toasts :: "toast list"
  console :: "error list"
  live :: "nat set"
  next_stream :: nat

definition empty_world :: world where
  "empty_world = \<lparr> objects = Map.empty, plant_scans = [], calls = [], toasts = [],
     console = [], live = {}, next_stream = 0 \<rparr>"

text \<open>What the collaborators answer during one run of an analyze handler.\<close>

record env =
  date_now :: nat
  fetched :: "error + blob"
  uploadError :: "error option"
  getPublicUrl :: "string \<Rightarrow> string"
  analysisData :: "analysis_data option"
  analysisError :: "error option"
  dbError :: "error option"
  new_id :: string

section \<open>The collaborators\<close>

text \<open>The object storage, the record store, the analysis function and the camera are
  not part of the sources; the handlers only call them. Each is modelled by the contract
  section 6 of the specification gives for it: a request is logged, it takes effect when
  the answer is ok and changes nothing when the answer is an error.\<close>

text \<open>Modelled from the spec: object storage, \<^verbatim>\<open>put(path, bytes) -> ok|error\<close>
  (\<^verbatim>\<open>storage.from('plant-images').upload\<close>).\<close>

definition storage_upload :: "error option \<Rightarrow> string \<Rightarrow> blob \<Rightarrow> world \<Rightarrow> world" where
  "storage_upload err path b w =
     (let w1 = w\<lparr>calls := calls w @ [StorageUpload path b]\<rparr>
      in case err of
           Some e \<Rightarrow> w1
         | None \<Rightarrow> w1\<lparr>objects := (objects w1)(path \<mapsto> b)\<rparr>)"

text \<open>Modelled from the spec: object storage, \<^verbatim>\<open>delete(path) -> ok|error\<close>
  (\<^verbatim>\<open>storage.from('plant-images').remove\<close>).\<close>

definition storage_remove :: "error option \<Rightarrow> string list \<Rightarrow> world \<Rightarrow> world" where
  "storage_remove err paths w =
     (let w1 = w\<lparr>calls := calls w @ [StorageRemove paths]\<rparr>
      in case err of
           Some e \<Rightarrow> w1
         | None \<Rightarrow> w1\<lparr>objects := (\<lambda>p. if p \<in> set paths then None else objects w1 p)\<rparr>)"

text \<open>Modelled from the spec: remote analysis function, \<^verbatim>\<open>invoke(imageUrl)\<close>; its reply
  is \<open>analysisData\<close> and \<open>analysisError\<close> of the run.\<close>

definition functions_invoke :: "string \<Rightarrow> world \<Rightarrow> world" where
  "functions_invoke imageUrl w = w\<lparr>calls := calls w @ [FunctionsInvoke imageUrl]\<rparr>"

text \<open>Modelled from the spec: record store, \<^verbatim>\<open>insert(record) -> ok|error\<close>; the store
  gives the new row its id.\<close>

definition db_insert :: "error option \<Rightarrow> string \<Rightarrow> scan_insert \<Rightarrow> world \<Rightarrow> world" where
  "db_insert err rid row w =
     (let w1 = w\<lparr>calls := calls w @ [DbInsert row]\<rparr>
      in case err of
           Some e \<Rightarrow> w1
         | None \<Rightarrow> w1\<lparr>plant_scans := plant_scans w1 @ [(rid, row)]\<rparr>)"

text \<open>Modelled from the spec: record store, \<^verbatim>\<open>delete(id) -> ok|error\<close>.\<close>

definition db_delete :: "error option \<Rightarrow> string \<Rightarrow> world \<Rightarrow> world" where
  "db_delete err scanId w =
     (let w1 = w\<lparr>calls := calls w @ [DbDelete scanId]\<rparr>
      in case err of
           Some e \<Rightarrow> w1
         | None \<Rightarrow> w1\<lparr>plant_scans := filter (\<lambda>r. fst r \<noteq> scanId) (plant_scans w1)\<rparr>)"

text \<open>Modelled from the spec: the camera, \<^verbatim>\<open>navigator.mediaDevices.getUserMedia\<close>; it
  either fails or gives a new stream whose tracks are live (section 4.1, \<^verbatim>\<open>start()\<close>).
  Streams are numbered in the order the device hands them out.\<close>

definition getUserMedia :: "error option \<Rightarrow> world \<Rightarrow> (error + nat) \<times> world" where
  "getUserMedia err w =
     (let w1 = w\<lparr>calls := calls w @ [GetUserMedia]\<rparr>
      in case err of
           Some e \<Rightarrow> (Inl e, w1)
         | None \<Rightarrow> (Inr (next_stream w),
                    w1\<lparr>live := insert (next_stream w) (live w1),
                       next_stream := Suc (next_stream w)\<rparr>))"

text \<open>Modelled from the spec: releasing a stream, \<^verbatim>\<open>stream.getTracks().forEach(track =>
  track.stop())\<close>; all its tracks are stopped and the stream is no longer live.\<close>

definition stop_tracks :: "nat \<Rightarrow> world \<Rightarrow> world" where
  "stop_tracks s w = w\<lparr>calls := calls w @ [StopTracks s], live := live w - {s}\<rparr>"

section \<open>The upload, analyse and persist stages\<close>

text \<open>Lines 65 to 94 of \<^verbatim>\<open>handleAnalyze\<close> (part_000) and lines 289 to 318 of
  \<^verbatim>\<open>analyzeImage\<close> (History.tsx) are the same statements, on the path and the bytes each
  handler has prepared. A \<^verbatim>\<open>throw\<close> is the result \<open>Inl\<close>, the analysis data the result
  \<open>Inr\<close>.\<close>

definition scan_row :: "User \<Rightarrow> string \<Rightarrow> analysis_data \<Rightarrow> scan_insert" where
  "scan_row u publicUrl analysisData' =
     \<lparr> user_id = uid u,
       image_url = publicUrl,
       disease_detected = disease analysisData',
       scan_diagnosis = diagnosis analysisData',
       scan_recommendations = recommendations analysisData',
       confidence_score = confidence analysisData' \<rparr>"

definition stages :: "env \<Rightarrow> User \<Rightarrow> string \<Rightarrow> blob \<Rightarrow> world \<Rightarrow> (error + analysis_data) \<times> world" where
  "stages env u fileName b w =
     (let w1 = storage_upload (uploadError env) fileName b w
      in case uploadError env of
           Some e \<Rightarrow> (Inl e, w1)
         | None \<Rightarrow>
            (let publicUrl = getPublicUrl env fileName;
                 w2 = functions_invoke publicUrl w1
             in case analysisError env of
                  Some e \<Rightarrow> (Inl e, w2)
                | None \<Rightarrow>
                   (case analysisData env of
                      None \<Rightarrow> (Inl TypeError, w2)
                    | Some d \<Rightarrow>
                       (let w3 = db_insert (dbError env) (new_id env)
                                   (scan_row u publicUrl d) w2
                        in case dbError env of
                             Some e \<Rightarrow> (Inl e, w3)
                           | None \<Rightarrow> (Inr d, w3)))))"

section \<open>The components\<close>

record page =
  user :: "User option"
  analyzing :: bool
  result :: "analysis_data option"

record upload_state = page +
  selectedFile :: "File option"
  previewUrl :: "string option"

record scan_state = page +
  stream :: "nat option"
  capturing :: bool
  capturedImage :: "string option"

record history_state =
  scans :: "scan list"
  loading :: bool

text \<open>The \<^verbatim>\<open>try\<close>, \<^verbatim>\<open>catch\<close> and \<^verbatim>\<open>finally\<close> blocks the two analyze handlers share, after the
  \<^verbatim>\<open>try\<close> body has given \<open>r\<close>: on success \<^verbatim>\<open>setResult\<close> and the success toast, on a throw
  \<^verbatim>\<open>console.error\<close> and the error toast, and \<^verbatim>\<open>setAnalyzing(false)\<close> in both cases.\<close>

definition finish :: "(error + analysis_data) \<times> world \<Rightarrow> 'a page_scheme \<Rightarrow> 'a page_scheme \<times> world" where
  "finish r st =
     (case r of
        (Inr d, w) \<Rightarrow>
          (st\<lparr>result := Some d, analyzing := False\<rparr>,
           w\<lparr>toasts := toasts w @ [ToastSuccess ''Analysis complete!'']\<rparr>)
      | (Inl e, w) \<Rightarrow>
          (st\<lparr>analyzing := False\<rparr>,
           w\<lparr>console := console w @ [e],
             toasts := toasts w @ [ToastError (message_or e ''Failed to analyze image'')]\<rparr>))"

subsection \<open>Upload: \<^verbatim>\<open>handleAnalyze\<close>\<close>

definition upload_path :: "nat \<Rightarrow> User \<Rightarrow> File \<Rightarrow> string" where
  "upload_path now u f =
     (let fileExt = pop (js_split ''.'' (name f))
      in uid u @ ''/'' @ string_of_nat now @ ''.'' @ template fileExt)"

definition handleAnalyze :: "env \<Rightarrow> upload_state \<Rightarrow> world \<Rightarrow> upload_state \<times> world" where
  "handleAnalyze env st w =
     (case (selectedFile st, user st) of
        (Some f, Some u) \<Rightarrow>
          finish (stages env u (upload_path (date_now env) u f) (content f) w)
                 (st\<lparr>analyzing := True\<rparr>)
      | _ \<Rightarrow> (st, w))"

subsection \<open>Scan: the camera and \<^verbatim>\<open>analyzeImage\<close>\<close>

definition scan_path :: "nat \<Rightarrow> User \<Rightarrow> string" where
  "scan_path now u = uid u @ ''/'' @ string_of_nat now @ ''.jpg''"

definition analyzeImage :: "env \<Rightarrow> scan_state \<Rightarrow> world \<Rightarrow> scan_state \<times> world" where
  "analyzeImage env st w =
     (if \<not> truthy (capturedImage st) then (st, w)
      else case user st of
             None \<Rightarrow> (st, w)
           | Some u \<Rightarrow>
               finish (case fetched env of
                         Inl e \<Rightarrow> (Inl e, w)
                       | Inr b \<Rightarrow> stages env u (scan_path (date_now env) u) b w)
                      (st\<lparr>analyzing := True\<rparr>))"

text \<open>\<^verbatim>\<open>startCamera\<close> is an async function. The click runs it up to
  \<^verbatim>\<open>await navigator.mediaDevices.getUserMedia(...)\<close>: the device is asked, whatever the
  state is, and nothing of the component changes. What follows the \<^verbatim>\<open>await\<close> runs later,
  on the device's answer and on the state the component has by then: \<^verbatim>\<open>setStream\<close> and
  \<^verbatim>\<open>setCapturing(true)\<close>, or the toast of the \<^verbatim>\<open>catch\<close> block. Other handlers, and other
  calls of \<^verbatim>\<open>startCamera\<close>, can run in between. (The assignment to
  \<^verbatim>\<open>videoRef.current.srcObject\<close> changes nothing that is modelled.)\<close>

definition startCamera_request :: "error option \<Rightarrow> world \<Rightarrow> (error + nat) \<times> world" where
  "startCamera_request mediaError w = getUserMedia mediaError w"

definition startCamera_resume :: "error + nat \<Rightarrow> scan_state \<Rightarrow> world \<Rightarrow> scan_state \<times> world" where
  "startCamera_resume answer st w =
     (case answer of
        Inl e \<Rightarrow> (st, w\<lparr>toasts := toasts w @ [ToastError ''Failed to access camera'']\<rparr>)
      | Inr mediaStream \<Rightarrow> (st\<lparr>stream := Some mediaStream, capturing := True\<rparr>, w))"

definition stopCamera :: "scan_state \<Rightarrow> world \<Rightarrow> scan_state \<times> world" where
  "stopCamera st w =
     (case stream st of
        Some s \<Rightarrow> (st\<lparr>stream := None, capturing := False\<rparr>, stop_tracks s w)
      | None \<Rightarrow> (st\<lparr>capturing := False\<rparr>, w))"

text \<open>The video element is rendered exactly while \<^verbatim>\<open>capturing\<close> holds and the canvas always,
  so \<^verbatim>\<open>videoRef.current\<close> is set exactly then; \<open>ctx\<close> tells whether the canvas gave a 2d
  context, \<open>imageData\<close> is what \<^verbatim>\<open>toDataURL\<close> returned.\<close>

definition captureImage :: "bool \<Rightarrow> string \<Rightarrow> scan_state \<Rightarrow> world \<Rightarrow> scan_state \<times> world" where
  "captureImage ctx imageData st w =
     (if \<not> capturing st then (st, w)
      else if ctx then stopCamera (st\<lparr>capturedImage := Some imageData\<rparr>) w
      else (st, w))"

definition retake :: "scan_state \<Rightarrow> scan_state" where
  "retake st = st\<lparr>capturedImage := None, result := None\<rparr>"

text \<open>The effect \<^verbatim>\<open>useEffect(() => () => { if (stream) stream.getTracks().forEach(stop) },
  [stream])\<close>: its cleanup, which holds the stream of the render that installed it, runs
  when a render has another stream, and when the component is unmounted.\<close>

definition cleanup :: "nat option \<Rightarrow> world \<Rightarrow> world" where
  "cleanup strm w = (case strm of Some s \<Rightarrow> stop_tracks s w | None \<Rightarrow> w)"

definition commit :: "scan_state \<Rightarrow> scan_state \<times> world \<Rightarrow> scan_state \<times> world" where
  "commit old sw =
     (if stream (fst sw) \<noteq> stream old then (fst sw, cleanup (stream old) (snd sw)) else sw)"

definition unmount :: "scan_state \<Rightarrow> world \<Rightarrow> world" where
  "unmount st w = cleanup (stream st) w"

text \<open>The handlers of the Scan page that are not async: Cancel, Capture Photo and Retake.\<close>

datatype scan_event =
    StopCamera
  | CaptureImage bool string
  | Retake

definition handler :: "scan_event \<Rightarrow> scan_state \<Rightarrow> world \<Rightarrow> scan_state \<times> world" where
  "handler ev st w =
     (case ev of
        StopCamera \<Rightarrow> stopCamera st w
      | CaptureImage ctx imageData \<Rightarrow> captureImage ctx imageData st w
      | Retake \<Rightarrow> (retake st, w))"

text \<open>One such event: the handler runs to its end, then the render it caused is
  committed.\<close>

definition step :: "scan_event \<Rightarrow> scan_state \<times> world \<Rightarrow> scan_state \<times> world" where
  "step ev sw = commit (fst sw) (handler ev (fst sw) (snd sw))"

text \<open>The Scan page over time. \<open>view\<close> is the state of the component, \<open>rendered\<close> the
  state of the last committed render (it decides which buttons exist, and its stream is
  the one the installed effect cleanup holds), \<open>awaiting\<close> the calls of \<^verbatim>\<open>startCamera\<close>
  that are suspended at their \<^verbatim>\<open>await\<close>, oldest first, each with the answer of the device.\<close>

record scan_app =
  view :: scan_state
  rendered :: scan_state
  awaiting :: "(error + nat) list"
  outside :: world

text \<open>What can happen next: a click on Start Camera; a click on Scan Another Plant; the
  oldest suspended \<^verbatim>\<open>startCamera\<close> going on after its \<^verbatim>\<open>await\<close>; React committing a render;
  one of the handlers that are not async.\<close>

datatype action =
    ClickStart "error option"
  | ClickScanAnother "error option"
  | Resumed
  | Rendered
  | Event scan_event

definition render :: "scan_app \<Rightarrow> scan_app" where
  "render a =
     (case commit (rendered a) (view a, outside a) of
        (st, w) \<Rightarrow> a\<lparr>rendered := st, outside := w\<rparr>)"

text \<open>The buttons as the JSX renders them: Start Camera under
  \<^verbatim>\<open>!capturing && !capturedImage\<close>, Scan Another Plant under \<^verbatim>\<open>result\<close>, Capture Photo and
  Cancel under \<^verbatim>\<open>capturing\<close>, Retake under \<^verbatim>\<open>capturedImage && !result\<close>. A click on a button
  that is not rendered cannot happen and changes nothing. Renders that are due are
  committed before a handler that is not async runs.\<close>

definition offered :: "scan_event \<Rightarrow> scan_state \<Rightarrow> bool" where
  "offered ev st =
     (case ev of
        StopCamera \<Rightarrow> capturing st
      | CaptureImage ctx imageData \<Rightarrow> capturing st
      | Retake \<Rightarrow> truthy (capturedImage st) \<and> result st = None)"

definition act :: "action \<Rightarrow> scan_app \<Rightarrow> scan_app" where
  "act x a =
     (case x of
        ClickStart mediaError \<Rightarrow>
          if capturing (rendered a) \<or> truthy (capturedImage (rendered a)) then a
          else (case startCamera_request mediaError (outside a) of
                  (answer, w) \<Rightarrow> a\<lparr>awaiting := awaiting a @ [answer], outside := w\<rparr>)
      | ClickScanAnother mediaError \<Rightarrow>
          if result (rendered a) = None then a
          else (case startCamera_request mediaError (outside a) of
                  (answer, w) \<Rightarrow>
                    render (a\<lparr>view := retake (view a), awaiting := awaiting a @ [answer],
                              outside := w\<rparr>))
      | Resumed \<Rightarrow>
          (case awaiting a of
             [] \<Rightarrow> a
           | answer # rest \<Rightarrow>
               (case startCamera_resume answer (view a) (outside a) of
                  (st, w) \<Rightarrow> a\<lparr>view := st, awaiting := rest, outside := w\<rparr>))
      | Rendered \<Rightarrow> render a
      | Event ev \<Rightarrow>
          (let a1 = render a
           in if \<not> offered ev (rendered a1) then a1
              else (case step ev (view a1, outside a1) of
                      (st, w) \<Rightarrow> a1\<lparr>view := st, rendered := st, outside := w\<rparr>)))"

definition acts :: "action list \<Rightarrow> scan_app \<Rightarrow> scan_app" where
  "acts xs a = fold act xs a"

subsection \<open>History: \<^verbatim>\<open>deleteScan\<close>\<close>

definition deleteScan ::
  "error option \<Rightarrow> error option \<Rightarrow> string \<Rightarrow> string \<Rightarrow> history_state \<Rightarrow> world \<Rightarrow> history_state \<times> world" where
  "deleteScan removeError deleteError scanId imageUrl st w =
     (let filePath = at_index (js_split ''/plant-images/'' imageUrl) 1;
          w1 = (if truthy filePath then storage_remove removeError [the filePath] w else w);
          w2 = db_delete deleteError scanId w1
      in case deleteError of
           Some e \<Rightarrow> (st, w2\<lparr>toasts := toasts w2 @ [ToastError ''Failed to delete scan'']\<rparr>)
         | None \<Rightarrow>
             (st\<lparr>scans := filter (\<lambda>scan. fst scan \<noteq> scanId) (scans st)\<rparr>,
              w2\<lparr>toasts := toasts w2 @ [ToastSuccess ''Scan deleted'']\<rparr>))"

section \<open>Rendering of the confidence\<close>

text \<open>\<^verbatim>\<open>{result.confidence && <p>{Math.round(result.confidence * 100)}%</p>}\<close>, the same
  in the Upload, Scan and History views (there on \<^verbatim>\<open>scan.confidence_score\<close>): nothing is
  shown for a missing score, the bare number for a zero score (React prints the falsy
  number that \<^verbatim>\<open>&&\<close> returns), the rounded percentage otherwise.\<close>

datatype shown = Nothing | Bare real | Percent int

definition render_confidence :: "real option \<Rightarrow> shown" where
  "render_confidence c =
     (case c of
        None \<Rightarrow> Nothing
      | Some x \<Rightarrow> if x = 0 then Bare x else Percent (Math_round (x * 100)))"

section \<open>Notions of the statements\<close>

text \<open>The answers of one run, stage by stage. The analysis has succeeded when the reply
  has no error and its data is an object (the handler reads the data's fields).\<close>

definition upload_ok :: "env \<Rightarrow> bool" where
  "upload_ok env = (uploadError env = None)"

definition analysis_ok :: "env \<Rightarrow> bool" where
  "analysis_ok env = (analysisError env = None \<and> analysisData env \<noteq> None)"

definition persist_ok :: "env \<Rightarrow> bool" where
  "persist_ok env = (dbError env = None)"

definition fetch_ok :: "env \<Rightarrow> bool" where
  "fetch_ok env = (case fetched env of Inl e \<Rightarrow> False | Inr b \<Rightarrow> True)"

text \<open>What the \<^verbatim>\<open>try\<close> block of the stages throws: the error of the first stage that fails.\<close>

definition thrown :: "env \<Rightarrow> error option" where
  "thrown env =
     (case uploadError env of
        Some e \<Rightarrow> Some e
      | None \<Rightarrow>
         (case analysisError env of
            Some e \<Rightarrow> Some e
          | None \<Rightarrow> (case analysisData env of None \<Rightarrow> Some TypeError | Some d \<Rightarrow> dbError env)))"

definition thrown_scan :: "env \<Rightarrow> error option" where
  "thrown_scan env = (case fetched env of Inl e \<Rightarrow> Some e | Inr b \<Rightarrow> thrown env)"

text \<open>Whether the guard at the head of each analyze handler lets the run go on.\<close>

definition upload_runs :: "upload_state \<Rightarrow> bool" where
  "upload_runs st = (selectedFile st \<noteq> None \<and> user st \<noteq> None)"

definition scan_runs :: "scan_state \<Rightarrow> bool" where
  "scan_runs st = (truthy (capturedImage st) \<and> user st \<noteq> None)"

text \<open>The requests sent between two worlds, and counts over them.\<close>

definition issued :: "world \<Rightarrow> world \<Rightarrow> call list" where
  "issued w w' = drop (length (calls w)) (calls w')"


fun is_remove :: "call \<Rightarrow> bool" where
  "is_remove (StorageRemove ps) = True"
| "is_remove c = False"


section \<open>Concrete inputs\<close>

definition u1 :: User where
  "u1 = \<lparr> uid = ''u1'' \<rparr>"

definition leaf :: File where
  "leaf = \<lparr> name = ''leaf.jpg'', content = ''bytes'' \<rparr>"

definition blight :: "real \<Rightarrow> analysis_data" where
  "blight c = \<lparr> disease = Some ''blight'', diagnosis = Some ''late blight'',
     recommendations = None, confidence = Some c \<rparr>"

definition public_url :: "string \<Rightarrow> string" where
  "public_url path = ''https://p.supabase.co/storage/v1/object/public/plant-images/'' @ path"

definition env_ok :: "real \<Rightarrow> env" where
  "env_ok c = \<lparr> date_now = 17, fetched = Inr ''jpeg'', uploadError = None,
     getPublicUrl = public_url, analysisData = Some (blight c), analysisError = None,
     dbError = None, new_id = ''s1'' \<rparr>"

definition network_down :: error where
  "network_down = Error (Some ''Failed to fetch'')"

definition env_upload_fails :: env where
  "env_upload_fails = (env_ok 1)\<lparr>uploadError := Some network_down\<rparr>"

definition env_analysis_fails :: env where
  "env_analysis_fails = (env_ok 1)\<lparr>analysisError := Some network_down\<rparr>"

definition env_persist_fails :: env where
  "env_persist_fails = (env_ok 1)\<lparr>dbError := Some network_down\<rparr>"

definition upload_ready :: upload_state where
  "upload_ready = \<lparr> user = Some u1, analyzing = False, result = None,
     selectedFile = Some leaf, previewUrl = Some ''blob:1'' \<rparr>"

definition scan_idle :: scan_state where
  "scan_idle = \<lparr> user = Some u1, analyzing = False, result = None,
     stream = None, capturing = False, capturedImage = None \<rparr>"

definition scan_captured :: scan_state where
  "scan_captured = scan_idle\<lparr>capturedImage := Some ''data:image/jpeg;base64,AA''\<rparr>"


definition world_capturing :: world where
  "world_capturing = empty_world\<lparr>calls := [GetUserMedia], live := {0}, next_stream := 1\<rparr>"

text \<open>The idle Scan page, and Start Camera clicked twice before the device has answered
  the first click; the device grants both requests, both calls go on, React renders.\<close>

definition app_idle :: scan_app where
  "app_idle = \<lparr> view = scan_idle, rendered = scan_idle, awaiting = [], outside = empty_world \<rparr>"

definition double_start :: "action list" where
  "double_start = [ClickStart None, ClickStart None, Resumed, Resumed, Rendered]"

definition after_double_start :: scan_app where
  "after_double_start = acts double_start app_idle"

definition after_cancel :: scan_app where
  "after_cancel = act (Event StopCamera) after_double_start"

definition row_one :: scan_insert where
  "row_one = scan_row u1 (public_url ''u1/17.jpg'') (blight 1)"

definition history_one :: history_state where
  "history_one = \<lparr> scans = [(''s1'', row_one)], loading = False \<rparr>"

definition world_one :: world where
  "world_one = empty_world\<lparr>objects := [''u1/17.jpg'' \<mapsto> ''bytes''],
     plant_scans := [(''s1'', row_one)]\<rparr>"


section \<open>Lemmas about the stages and the handlers\<close>

lemma issued_eq: "calls w' = calls w @ cs \<Longrightarrow> issued w w' = cs"
  by (simp add: issued_def)

lemma issued_self: "issued w w = []"
  by (simp add: issued_def)

lemma stages_fst:
  "fst (stages env u p b w) =
     (case uploadError env of Some e \<Rightarrow> Inl e
      | None \<Rightarrow> (case analysisError env of Some e \<Rightarrow> Inl e
         | None \<Rightarrow> (case analysisData env of None \<Rightarrow> Inl TypeError
            | Some d \<Rightarrow> (case dbError env of Some e \<Rightarrow> Inl e | None \<Rightarrow> Inr d))))"
  by (simp add: stages_def Let_def split: option.splits)

lemma stages_calls:
  "calls (snd (stages env u p b w)) =
     calls w @ StorageUpload p b #
       (if upload_ok env
        then FunctionsInvoke (getPublicUrl env p) #
          (if analysis_ok env
           then [DbInsert (scan_row u (getPublicUrl env p) (the (analysisData env)))]
           else [])
        else [])"
  by (simp add: stages_def Let_def upload_ok_def analysis_ok_def storage_upload_def
      functions_invoke_def db_insert_def split: option.splits)

lemma stages_issued:
  "issued w (snd (stages env u p b w)) =
     StorageUpload p b #
       (if upload_ok env
        then FunctionsInvoke (getPublicUrl env p) #
          (if analysis_ok env
           then [DbInsert (scan_row u (getPublicUrl env p) (the (analysisData env)))]
           else [])
        else [])"
  by (rule issued_eq) (simp add: stages_calls)

lemma stages_plant_scans:
  "plant_scans (snd (stages env u p b w)) =
     (if upload_ok env \<and> analysis_ok env \<and> persist_ok env
      then plant_scans w @ [(new_id env, scan_row u (getPublicUrl env p) (the (analysisData env)))]
      else plant_scans w)"
  by (simp add: stages_def Let_def upload_ok_def analysis_ok_def persist_ok_def storage_upload_def
      functions_invoke_def db_insert_def split: option.splits)

lemma stages_objects:
  "objects (snd (stages env u p b w)) =
     (if upload_ok env then (objects w)(p \<mapsto> b) else objects w)"
  by (simp add: stages_def Let_def upload_ok_def storage_upload_def
      functions_invoke_def db_insert_def split: option.splits)

lemma stages_frame:
  "toasts (snd (stages env u p b w)) = toasts w"
  "console (snd (stages env u p b w)) = console w"
  "live (snd (stages env u p b w)) = live w"
  "next_stream (snd (stages env u p b w)) = next_stream w"
  by (simp_all add: stages_def Let_def storage_upload_def
      functions_invoke_def db_insert_def split: option.splits)

lemma stages_thrown:
  "fst (stages env u p b w) = (case thrown env of Some e \<Rightarrow> Inl e | None \<Rightarrow> Inr (the (analysisData env)))"
  by (simp add: stages_fst thrown_def split: option.splits)

lemma thrown_None: "(thrown env = None) = (upload_ok env \<and> analysis_ok env \<and> persist_ok env)"
  by (auto simp: thrown_def upload_ok_def analysis_ok_def persist_ok_def split: option.splits)

lemma finish_world:
  "plant_scans (snd (finish r st)) = plant_scans (snd r)"
  "calls (snd (finish r st)) = calls (snd r)"
  "objects (snd (finish r st)) = objects (snd r)"
  "live (snd (finish r st)) = live (snd r)"
  "next_stream (snd (finish r st)) = next_stream (snd r)"
  by (simp_all add: finish_def split: prod.splits sum.splits)

lemma finish_issued: "issued w (snd (finish r st)) = issued w (snd r)"
  by (simp add: issued_def finish_world)

lemma finish_toasts:
  "toasts (snd (finish r st)) = toasts (snd r) @
     [case fst r of Inr d \<Rightarrow> ToastSuccess ''Analysis complete!''
      | Inl e \<Rightarrow> ToastError (message_or e ''Failed to analyze image'')]"
  by (simp add: finish_def split: prod.splits sum.splits)

lemma finish_console:
  "console (snd (finish r st)) = console (snd r) @ (case fst r of Inr d \<Rightarrow> [] | Inl e \<Rightarrow> [e])"
  by (simp add: finish_def split: prod.splits sum.splits)

lemma finish_page:
  "analyzing (fst (finish r st)) = False"
  "result (fst (finish r st)) = (case fst r of Inr d \<Rightarrow> Some d | Inl e \<Rightarrow> result st)"
  "user (fst (finish r st)) = user st"
  by (simp_all add: finish_def split: prod.splits sum.splits)

text \<open>
  The extension \<^verbatim>\<open>name.split('.').pop()\<close> finds: what follows the last dot.
\<close>

lemma split_from_nonempty: "split_from sep acc s \<noteq> []"
  by (induction sep acc s rule: split_from.induct) simp_all

lemma split_from_no_sep: "c \<notin> set s \<Longrightarrow> split_from [c] acc s = [rev acc @ s]"
  by (induction s arbitrary: acc) auto

lemma split_from_last:
  "c \<notin> set e \<Longrightarrow> last (split_from [c] acc (b @ c # e)) = e"
proof (induction b arbitrary: acc)
  case Nil
  then show ?case by (simp add: split_from_no_sep)
next
  case (Cons x b)
  then show ?case by (simp add: split_from_nonempty)
qed

lemma pop_split_extension:
  "CHR ''.'' \<notin> set e \<Longrightarrow> pop (js_split ''.'' (b @ CHR ''.'' # e)) = Some e"
  by (simp add: pop_def js_split_def split_from_nonempty split_from_last)

lemma upload_path_extension:
  "name f = b @ ''.'' @ e \<Longrightarrow> CHR ''.'' \<notin> set e \<Longrightarrow>
   upload_path now u f = uid u @ ''/'' @ string_of_nat now @ ''.'' @ e"
  by (simp add: upload_path_def Let_def pop_split_extension template_def)

text \<open>
  Each analyze handler, by the outcome of its guard.
\<close>

lemma handleAnalyze_runs:
  "selectedFile st = Some f \<Longrightarrow> user st = Some u \<Longrightarrow>
   handleAnalyze env st w =
     finish (stages env u (upload_path (date_now env) u f) (content f) w) (st\<lparr>analyzing := True\<rparr>)"
  by (simp add: handleAnalyze_def)

lemma handleAnalyze_skips: "\<not> upload_runs st \<Longrightarrow> handleAnalyze env st w = (st, w)"
  by (auto simp: handleAnalyze_def upload_runs_def split: option.splits)

lemma analyzeImage_skips: "\<not> scan_runs st \<Longrightarrow> analyzeImage env st w = (st, w)"
  by (auto simp: analyzeImage_def scan_runs_def split: option.splits)

lemma analyzeImage_fetch_fails:
  "scan_runs st \<Longrightarrow> fetched env = Inl e \<Longrightarrow>
   analyzeImage env st w = finish (Inl e, w) (st\<lparr>analyzing := True\<rparr>)"
  by (auto simp: analyzeImage_def scan_runs_def split: option.splits)

lemma analyzeImage_runs:
  "truthy (capturedImage st) \<Longrightarrow> user st = Some u \<Longrightarrow> fetched env = Inr b \<Longrightarrow>
   analyzeImage env st w =
     finish (stages env u (scan_path (date_now env) u) b w) (st\<lparr>analyzing := True\<rparr>)"
  by (simp add: analyzeImage_def)

lemma handleAnalyze_runs':
  "upload_runs st \<Longrightarrow>
   handleAnalyze env st w =
     finish (stages env (the (user st))
               (upload_path (date_now env) (the (user st)) (the (selectedFile st)))
               (content (the (selectedFile st))) w)
            (st\<lparr>analyzing := True\<rparr>)"
  by (auto simp: upload_runs_def handleAnalyze_runs)

lemma analyzeImage_runs':
  "scan_runs st \<Longrightarrow> fetched env = Inr b \<Longrightarrow>
   analyzeImage env st w =
     finish (stages env (the (user st)) (scan_path (date_now env) (the (user st))) b w)
            (st\<lparr>analyzing := True\<rparr>)"
  by (auto simp: scan_runs_def analyzeImage_runs)

text \<open>
  What a run leaves in each part of the world and of the page.
\<close>

lemma handleAnalyze_plant_scans:
  "plant_scans (snd (handleAnalyze env st w)) =
      (if upload_runs st \<and> upload_ok env \<and> analysis_ok env \<and> persist_ok env
       then plant_scans w @ [(new_id env, scan_row (the (user st))
              (getPublicUrl env (upload_path (date_now env) (the (user st)) (the (selectedFile st))))
              (the (analysisData env)))]
       else plant_scans w)"
  by (cases "upload_runs st")
    (simp_all add: handleAnalyze_runs' handleAnalyze_skips finish_world stages_plant_scans)

lemma handleAnalyze_issued:
  "issued w (snd (handleAnalyze env st w)) =
      (if upload_runs st
       then issued w (snd (stages env (the (user st))
               (upload_path (date_now env) (the (user st)) (the (selectedFile st)))
               (content (the (selectedFile st))) w))
       else [])"
  by (cases "upload_runs st")
    (simp_all add: handleAnalyze_runs' handleAnalyze_skips finish_issued issued_self)

lemma analyzeImage_plant_scans:
  "plant_scans (snd (analyzeImage env sc w)) =
      (if scan_runs sc \<and> fetch_ok env \<and> upload_ok env \<and> analysis_ok env \<and> persist_ok env
       then plant_scans w @ [(new_id env, scan_row (the (user sc))
              (getPublicUrl env (scan_path (date_now env) (the (user sc))))
              (the (analysisData env)))]
       else plant_scans w)"
  by (cases "scan_runs sc"; cases "fetched env")
    (simp_all add: analyzeImage_runs' analyzeImage_fetch_fails analyzeImage_skips finish_world
      stages_plant_scans fetch_ok_def)

lemma analyzeImage_issued:
  "issued w (snd (analyzeImage env sc w)) =
      (if scan_runs sc \<and> fetch_ok env
       then issued w (snd (stages env (the (user sc)) (scan_path (date_now env) (the (user sc)))
               (projr (fetched env)) w))
       else [])"
  by (cases "scan_runs sc"; cases "fetched env")
    (simp_all add: analyzeImage_runs' analyzeImage_fetch_fails analyzeImage_skips finish_issued
      issued_self fetch_ok_def)

lemma handleAnalyze_objects:
  "objects (snd (handleAnalyze env st w)) =
      (if upload_runs st \<and> upload_ok env
       then (objects w)(upload_path (date_now env) (the (user st)) (the (selectedFile st))
              \<mapsto> content (the (selectedFile st)))
       else objects w)"
  by (cases "upload_runs st")
    (simp_all add: handleAnalyze_runs' handleAnalyze_skips finish_world stages_objects)

lemma analyzeImage_objects:
  "objects (snd (analyzeImage env sc w)) =
      (if scan_runs sc \<and> fetch_ok env \<and> upload_ok env
       then (objects w)(scan_path (date_now env) (the (user sc)) \<mapsto> projr (fetched env))
       else objects w)"
  by (cases "scan_runs sc"; cases "fetched env")
    (simp_all add: analyzeImage_runs' analyzeImage_fetch_fails analyzeImage_skips finish_world
      stages_objects fetch_ok_def)

lemma handleAnalyze_result:
  "result (fst (handleAnalyze env st w)) =
     (if upload_runs st \<and> thrown env = None then analysisData env else result st)"
  by (cases "upload_runs st")
    (auto simp: handleAnalyze_runs' handleAnalyze_skips finish_page stages_fst thrown_def
      split: option.splits)

lemma analyzeImage_result:
  "result (fst (analyzeImage env sc w)) =
     (if scan_runs sc \<and> thrown_scan env = None then analysisData env else result sc)"
  by (cases "scan_runs sc"; cases "fetched env")
    (auto simp: analyzeImage_runs' analyzeImage_fetch_fails analyzeImage_skips finish_page
      stages_fst thrown_def thrown_scan_def split: option.splits)

lemma handleAnalyze_toasts:
  "toasts (snd (handleAnalyze env st w)) =
     (if upload_runs st
      then toasts w @ [case thrown env of
                         None \<Rightarrow> ToastSuccess ''Analysis complete!''
                       | Some e \<Rightarrow> ToastError (message_or e ''Failed to analyze image'')]
      else toasts w)"
  by (cases "upload_runs st")
    (auto simp: handleAnalyze_runs' handleAnalyze_skips finish_toasts stages_thrown stages_frame
      split: option.splits)

lemma analyzeImage_toasts:
  "toasts (snd (analyzeImage env sc w)) =
     (if scan_runs sc
      then toasts w @ [case thrown_scan env of
                         None \<Rightarrow> ToastSuccess ''Analysis complete!''
                       | Some e \<Rightarrow> ToastError (message_or e ''Failed to analyze image'')]
      else toasts w)"
  by (cases "scan_runs sc"; cases "fetched env")
    (auto simp: analyzeImage_runs' analyzeImage_fetch_fails analyzeImage_skips finish_toasts
      stages_thrown stages_frame thrown_scan_def split: option.splits)

lemma handleAnalyze_console:
  "console (snd (handleAnalyze env st w)) =
     (if upload_runs st
      then console w @ (case thrown env of None \<Rightarrow> [] | Some e \<Rightarrow> [e])
      else console w)"
  by (cases "upload_runs st")
    (auto simp: handleAnalyze_runs' handleAnalyze_skips finish_console stages_thrown stages_frame
      split: option.splits)

lemma analyzeImage_console:
  "console (snd (analyzeImage env sc w)) =
     (if scan_runs sc
      then console w @ (case thrown_scan env of None \<Rightarrow> [] | Some e \<Rightarrow> [e])
      else console w)"
  by (cases "scan_runs sc"; cases "fetched env")
    (auto simp: analyzeImage_runs' analyzeImage_fetch_fails analyzeImage_skips finish_console
      stages_thrown stages_frame thrown_scan_def split: option.splits)

text \<open>
  \<^verbatim>\<open>deleteScan\<close>, part by part.
\<close>

lemma deleteScan_calls:
  "calls (snd (deleteScan removeError deleteError scanId imageUrl st w)) =
     calls w @
       (if truthy (at_index (js_split ''/plant-images/'' imageUrl) 1)
        then [StorageRemove [the (at_index (js_split ''/plant-images/'' imageUrl) 1)]] else []) @
       [DbDelete scanId]"
  by (simp add: deleteScan_def Let_def storage_remove_def db_delete_def split: option.splits)

lemma deleteScan_plant_scans:
  "plant_scans (snd (deleteScan removeError deleteError scanId imageUrl st w)) =
     (if deleteError = None then filter (\<lambda>r. fst r \<noteq> scanId) (plant_scans w) else plant_scans w)"
  by (simp add: deleteScan_def Let_def storage_remove_def db_delete_def split: option.splits)

lemma deleteScan_objects:
  "objects (snd (deleteScan removeError deleteError scanId imageUrl st w)) =
     (if truthy (at_index (js_split ''/plant-images/'' imageUrl) 1) \<and> removeError = None
      then (\<lambda>p. if p = the (at_index (js_split ''/plant-images/'' imageUrl) 1) then None
                 else objects w p)
      else objects w)"
  by (auto simp: deleteScan_def Let_def storage_remove_def db_delete_def fun_eq_iff
      split: option.splits)

section \<open>A record exists exactly when every stage succeeded\<close>



section \<open>A successful run creates one image and one record\<close>

text \<open>
  Claim C2: when upload, analysis and insert succeed for identity \<open>u\<close>, the run sends
  exactly one upload, one invocation and one insert. The Upload page stores the file at
  \<open>u/<timestamp>.e\<close> for a file name ending in the extension \<open>e\<close>, the Scan page at
  \<open>u/<timestamp>.jpg\<close>; the inserted row carries the identity, the public URL of that
  path, and the disease, diagnosis, recommendations and confidence of the analysis
  result.
\<close>

theorem success_creates_one_image_one_record:
  "upload_ok env \<Longrightarrow> analysisError env = None \<Longrightarrow> analysisData env = Some d \<Longrightarrow>
   persist_ok env \<Longrightarrow>
   (user st = Some u \<and> selectedFile st = Some f \<and> name f = base @ ''.'' @ e \<and>
    CHR ''.'' \<notin> set e \<longrightarrow>
      (let p = uid u @ ''/'' @ string_of_nat (date_now env) @ ''.'' @ e;
           row = \<lparr> user_id = uid u, image_url = getPublicUrl env p,
                   disease_detected = disease d, scan_diagnosis = diagnosis d,
                   scan_recommendations = recommendations d,
                   confidence_score = confidence d \<rparr>;
           w' = snd (handleAnalyze env st w)
       in issued w w' = [StorageUpload p (content f), FunctionsInvoke (getPublicUrl env p),
                         DbInsert row] \<and>
          objects w' = (objects w)(p \<mapsto> content f) \<and>
          plant_scans w' = plant_scans w @ [(new_id env, row)] \<and>
          result (fst (handleAnalyze env st w)) = Some d)) \<and>
   (user sc = Some u \<and> truthy (capturedImage sc) \<and> fetched env = Inr b \<longrightarrow>
      (let p = uid u @ ''/'' @ string_of_nat (date_now env) @ ''.jpg'';
           row = \<lparr> user_id = uid u, image_url = getPublicUrl env p,
                   disease_detected = disease d, scan_diagnosis = diagnosis d,
                   scan_recommendations = recommendations d,
                   confidence_score = confidence d \<rparr>;
           w' = snd (analyzeImage env sc w)
       in issued w w' = [StorageUpload p b, FunctionsInvoke (getPublicUrl env p), DbInsert row] \<and>
          objects w' = (objects w)(p \<mapsto> b) \<and>
          plant_scans w' = plant_scans w @ [(new_id env, row)] \<and>
          result (fst (analyzeImage env sc w)) = Some d))"
proof (intro conjI impI)
  assume ok: "upload_ok env" "analysisError env = None" "analysisData env = Some d" "persist_ok env"
  have aok: "analysis_ok env" using ok by (simp add: analysis_ok_def)
  {
    assume h: "user st = Some u \<and> selectedFile st = Some f \<and> name f = base @ ''.'' @ e \<and>
      CHR ''.'' \<notin> set e"
    then have runs: "upload_runs st" by (simp add: upload_runs_def)
    have p: "upload_path (date_now env) u f = uid u @ ''/'' @ string_of_nat (date_now env) @ ''.'' @ e"
      using h upload_path_extension [of f base e] by simp
    show "let p = uid u @ ''/'' @ string_of_nat (date_now env) @ ''.'' @ e;
           row = \<lparr> user_id = uid u, image_url = getPublicUrl env p,
                   disease_detected = disease d, scan_diagnosis = diagnosis d,
                   scan_recommendations = recommendations d,
                   confidence_score = confidence d \<rparr>;
           w' = snd (handleAnalyze env st w)
       in issued w w' = [StorageUpload p (content f), FunctionsInvoke (getPublicUrl env p),
                         DbInsert row] \<and>
          objects w' = (objects w)(p \<mapsto> content f) \<and>
          plant_scans w' = plant_scans w @ [(new_id env, row)] \<and>
          result (fst (handleAnalyze env st w)) = Some d"
      using h ok aok runs p
      by (simp add: Let_def handleAnalyze_issued handleAnalyze_objects handleAnalyze_plant_scans
          stages_issued scan_row_def handleAnalyze_result thrown_None)
  }
  {
    assume h: "user sc = Some u \<and> truthy (capturedImage sc) \<and> fetched env = Inr b"
    then have runs: "scan_runs sc" by (simp add: scan_runs_def)
    have f: "fetch_ok env" using h by (simp add: fetch_ok_def)
    show "let p = uid u @ ''/'' @ string_of_nat (date_now env) @ ''.jpg'';
           row = \<lparr> user_id = uid u, image_url = getPublicUrl env p,
                   disease_detected = disease d, scan_diagnosis = diagnosis d,
                   scan_recommendations = recommendations d,
                   confidence_score = confidence d \<rparr>;
           w' = snd (analyzeImage env sc w)
       in issued w w' = [StorageUpload p b, FunctionsInvoke (getPublicUrl env p), DbInsert row] \<and>
          objects w' = (objects w)(p \<mapsto> b) \<and>
          plant_scans w' = plant_scans w @ [(new_id env, row)] \<and>
          result (fst (analyzeImage env sc w)) = Some d"
      using h ok aok runs f
      by (simp add: Let_def analyzeImage_issued analyzeImage_objects analyzeImage_plant_scans
          stages_issued scan_row_def analyzeImage_result thrown_None thrown_scan_def
          scan_path_def)
  }
qed

text \<open>
  Claim C2, witness: identity u1, file leaf.jpg, timestamp 17, analysis result blight
  with confidence 0.87.
\<close>

theorem success_creates_one_image_one_record_witness:
  "upload_ok (env_ok 0.87) \<and> persist_ok (env_ok 0.87) \<and>
   issued empty_world (snd (handleAnalyze (env_ok 0.87) upload_ready empty_world)) =
     [StorageUpload ''u1/17.jpg'' ''bytes'',
      FunctionsInvoke (public_url ''u1/17.jpg''),
      DbInsert \<lparr> user_id = ''u1'', image_url = public_url ''u1/17.jpg'',
                 disease_detected = Some ''blight'', scan_diagnosis = Some ''late blight'',
                 scan_recommendations = None, confidence_score = Some 0.87 \<rparr>] \<and>
   plant_scans (snd (handleAnalyze (env_ok 0.87) upload_ready empty_world)) =
     [(''s1'', \<lparr> user_id = ''u1'', image_url = public_url ''u1/17.jpg'',
                 disease_detected = Some ''blight'', scan_diagnosis = Some ''late blight'',
                 scan_recommendations = None, confidence_score = Some 0.87 \<rparr>)] \<and>
   plant_scans (snd (analyzeImage (env_ok 0.87) scan_captured empty_world)) =
     [(''s1'', \<lparr> user_id = ''u1'', image_url = public_url ''u1/17.jpg'',
                 disease_detected = Some ''blight'', scan_diagnosis = Some ''late blight'',
                 scan_recommendations = None, confidence_score = Some 0.87 \<rparr>)]"
  using success_creates_one_image_one_record [where env = "env_ok 0.87" and d = "blight 0.87"
      and st = upload_ready and u = u1 and f = leaf and base = "''leaf''" and e = "''jpg''"
      and sc = scan_captured and b = "''jpeg''" and w = empty_world]
  by (simp add: env_ok_def upload_ok_def persist_ok_def upload_ready_def scan_captured_def
      scan_idle_def leaf_def u1_def blight_def empty_world_def truthy_def Let_def
      string_of_nat.simps digit_char_def)

section \<open>How a failing stage reaches the caller\<close>

text \<open>
  Claim C3, as the code has it: a run whose upload, analysis or insert fails ends with
  one error toast that shows the message of the failing stage's error (or
  \<^verbatim>\<open>Failed to analyze image\<close> when it has none), the error on the console and the result
  left as it was; in particular a failed insert after a successful upload and analysis
  is reported that way and never as a success. The stage is not told apart otherwise.
\<close>

theorem stage_failure_shown_as_error_toast:
  "(upload_runs st \<and> thrown env = Some e \<longrightarrow>
      toasts (snd (handleAnalyze env st w))
        = toasts w @ [ToastError (message_or e ''Failed to analyze image'')] \<and>
      console (snd (handleAnalyze env st w)) = console w @ [e] \<and>
      result (fst (handleAnalyze env st w)) = result st) \<and>
   (scan_runs sc \<and> thrown_scan env = Some e \<longrightarrow>
      toasts (snd (analyzeImage env sc w))
        = toasts w @ [ToastError (message_or e ''Failed to analyze image'')] \<and>
      console (snd (analyzeImage env sc w)) = console w @ [e] \<and>
      result (fst (analyzeImage env sc w)) = result sc) \<and>
   (uploadError env = Some x \<longrightarrow> thrown env = Some x) \<and>
   (upload_ok env \<and> analysisError env = Some x \<longrightarrow> thrown env = Some x) \<and>
   (upload_ok env \<and> analysis_ok env \<and> dbError env = Some x \<longrightarrow> thrown env = Some x)"
  by (auto simp: handleAnalyze_toasts handleAnalyze_console handleAnalyze_result
      analyzeImage_toasts analyzeImage_console analyzeImage_result thrown_def upload_ok_def
      analysis_ok_def)

text \<open>
  Claim C3, witness: the insert fails after a successful upload and analysis.
\<close>

theorem stage_failure_shown_as_error_toast_witness:
  "upload_runs upload_ready \<and> thrown env_persist_fails = Some network_down \<and>
   upload_ok env_persist_fails \<and> analysis_ok env_persist_fails \<and>
   toasts (snd (handleAnalyze env_persist_fails upload_ready empty_world))
     = [ToastError ''Failed to fetch''] \<and>
   result (fst (handleAnalyze env_persist_fails upload_ready empty_world)) = None \<and>
   scan_runs scan_captured \<and>
   toasts (snd (analyzeImage env_persist_fails scan_captured empty_world))
     = [ToastError ''Failed to fetch'']"
  using stage_failure_shown_as_error_toast [where env = env_persist_fails and st = upload_ready
      and sc = scan_captured and w = empty_world and e = network_down and x = network_down]
  by (simp add: env_persist_fails_def env_ok_def network_down_def upload_ok_def analysis_ok_def
      thrown_def thrown_scan_def upload_runs_def scan_runs_def upload_ready_def
      scan_captured_def scan_idle_def empty_world_def truthy_def message_or_def)

text \<open>
  Claim C3, as stated, fails: when the network is down at the upload, or only at the
  insert, the caller sees the same page state, the same toast and the same console
  entry; the two failures are not surfaced as distinct kinds.
\<close>

theorem upload_and_persist_failure_look_alike:
  "fst (handleAnalyze env_upload_fails upload_ready empty_world)
     = fst (handleAnalyze env_persist_fails upload_ready empty_world) \<and>
   toasts (snd (handleAnalyze env_upload_fails upload_ready empty_world))
     = [ToastError ''Failed to fetch''] \<and>
   toasts (snd (handleAnalyze env_persist_fails upload_ready empty_world))
     = [ToastError ''Failed to fetch''] \<and>
   console (snd (handleAnalyze env_upload_fails upload_ready empty_world)) = [network_down] \<and>
   console (snd (handleAnalyze env_persist_fails upload_ready empty_world)) = [network_down]"
  by (simp add: handleAnalyze_def finish_def stages_def Let_def env_upload_fails_def
      env_persist_fails_def env_ok_def network_down_def upload_ready_def empty_world_def
      storage_upload_def functions_invoke_def db_insert_def message_or_def truthy_def)

section \<open>A failed analysis leaves the upload in place\<close>

text \<open>
  Claim C4: when the upload succeeded and the analysis fails, the uploaded object is in
  storage at its path with the bytes that were sent, every other object is as before, the
  run has sent no removal request, and no row was added.
\<close>

theorem failed_analysis_keeps_upload:
  "upload_ok env \<Longrightarrow> \<not> analysis_ok env \<Longrightarrow>
   (user st = Some u \<and> selectedFile st = Some f \<longrightarrow>
      (let p = upload_path (date_now env) u f; w' = snd (handleAnalyze env st w)
       in objects w' = (objects w)(p \<mapsto> content f) \<and>
          objects w' p = Some (content f) \<and>
          filter is_remove (issued w w') = [] \<and>
          plant_scans w' = plant_scans w)) \<and>
   (user sc = Some u \<and> truthy (capturedImage sc) \<and> fetched env = Inr b \<longrightarrow>
      (let p = scan_path (date_now env) u; w' = snd (analyzeImage env sc w)
       in objects w' = (objects w)(p \<mapsto> b) \<and>
          objects w' p = Some b \<and>
          filter is_remove (issued w w') = [] \<and>
          plant_scans w' = plant_scans w))"
  by (simp add: Let_def handleAnalyze_objects handleAnalyze_issued handleAnalyze_plant_scans
      analyzeImage_objects analyzeImage_issued analyzeImage_plant_scans stages_issued
      upload_runs_def scan_runs_def fetch_ok_def)

text \<open>
  Claim C4, witness: the analysis function answers with an error.
\<close>

theorem failed_analysis_keeps_upload_witness:
  "upload_ok env_analysis_fails \<and> \<not> analysis_ok env_analysis_fails \<and>
   objects (snd (handleAnalyze env_analysis_fails upload_ready empty_world)) ''u1/17.jpg''
     = Some ''bytes'' \<and>
   issued empty_world (snd (handleAnalyze env_analysis_fails upload_ready empty_world))
     = [StorageUpload ''u1/17.jpg'' ''bytes'', FunctionsInvoke (public_url ''u1/17.jpg'')] \<and>
   objects (snd (analyzeImage env_analysis_fails scan_captured empty_world)) ''u1/17.jpg''
     = Some ''jpeg''"
  using failed_analysis_keeps_upload [where env = env_analysis_fails and st = upload_ready
      and u = u1 and f = leaf and sc = scan_captured and b = "''jpeg''" and w = empty_world]
  by (simp add: env_analysis_fails_def env_ok_def upload_ok_def analysis_ok_def upload_ready_def
      scan_captured_def scan_idle_def leaf_def u1_def empty_world_def truthy_def Let_def
      upload_path_def scan_path_def js_split_def pop_def template_def
      string_of_nat.simps digit_char_def handleAnalyze_issued stages_issued upload_runs_def)

section \<open>One device stream\<close>

text \<open>
  Claim C5, which the code breaks: the component should never hold more than one active
  device stream, and a start while a start is under way or while capturing should never
  acquire the device a second time. \<^verbatim>\<open>startCamera\<close> has no guard, and \<^verbatim>\<open>capturing\<close> is set
  only after its \<^verbatim>\<open>await\<close>, so the Start Camera button is still rendered when it is
  clicked a second time before the device has answered. Both clicks acquire the device;
  when both calls have gone on and React has rendered, two streams are live and the
  component holds the second only. The first is never stopped: it is still live after
  Cancel and after the component is unmounted. When React renders between the two
  resumptions the effect cleanup does stop the first stream, yet the device was acquired
  twice. Called on a capturing page, the request acquires a second stream as well.
\<close>

theorem double_start_leaks_a_stream:
  "issued empty_world (outside after_double_start) = [GetUserMedia, GetUserMedia] \<and>
   live (outside after_double_start) = {0, 1} \<and>
   stream (view after_double_start) = Some 1 \<and>
   capturing (view after_double_start) \<and>
   awaiting after_double_start = [] \<and>
   stream (view after_cancel) = None \<and>
   live (outside after_cancel) = {0} \<and>
   live (unmount (view after_cancel) (outside after_cancel)) = {0} \<and>
   issued empty_world (outside (acts
       [ClickStart None, ClickStart None, Resumed, Rendered, Resumed, Rendered] app_idle))
     = [GetUserMedia, GetUserMedia, StopTracks 0] \<and>
   fst (startCamera_request None world_capturing) = Inr 1 \<and>
   live (snd (startCamera_request None world_capturing)) = {0, 1}"
  by (auto simp: after_cancel_def after_double_start_def double_start_def acts_def act_def
      render_def commit_def cleanup_def unmount_def step_def handler_def offered_def
      stopCamera_def startCamera_request_def startCamera_resume_def getUserMedia_def
      stop_tracks_def issued_def app_idle_def scan_idle_def world_capturing_def
      empty_world_def truthy_def Let_def)

section \<open>Leaving the capturing state\<close>




section \<open>The guard of the analyze handlers\<close>

text \<open>
  Claim C7, as the code has it: called with no image or with no identity, each analyze
  handler returns at once; no stage runs and neither the component nor the outside world
  changes (no request, no toast, nothing on the console).
\<close>

theorem guard_returns_unchanged:
  "(\<not> upload_runs st \<longrightarrow> handleAnalyze env st w = (st, w)) \<and>
   (\<not> scan_runs sc \<longrightarrow> analyzeImage env sc w = (sc, w))"
  by (simp add: handleAnalyze_skips analyzeImage_skips)

text \<open>
  Claim C7, witness: a signed-out Upload page and a Scan page with no captured image.
\<close>

theorem guard_returns_unchanged_witness:
  "\<not> upload_runs (upload_ready\<lparr>user := None\<rparr>) \<and>
   handleAnalyze (env_ok 1) (upload_ready\<lparr>user := None\<rparr>) empty_world
     = (upload_ready\<lparr>user := None\<rparr>, empty_world) \<and>
   \<not> scan_runs scan_idle \<and>
   analyzeImage (env_ok 1) scan_idle empty_world = (scan_idle, empty_world)"
  using guard_returns_unchanged [of "upload_ready\<lparr>user := None\<rparr>" "env_ok 1" empty_world scan_idle]
  by (simp add: upload_runs_def scan_runs_def upload_ready_def scan_idle_def truthy_def)

text \<open>
  Claim C7, as stated, fails: with a file selected and no identity the handler shows no
  toast and logs nothing, so no InvalidInput error reaches the caller.
\<close>

theorem no_identity_no_error_surfaced:
  "toasts (snd (handleAnalyze (env_ok 1) (upload_ready\<lparr>user := None\<rparr>) empty_world)) = [] \<and>
   console (snd (handleAnalyze (env_ok 1) (upload_ready\<lparr>user := None\<rparr>) empty_world)) = [] \<and>
   fst (handleAnalyze (env_ok 1) (upload_ready\<lparr>user := None\<rparr>) empty_world)
     = upload_ready\<lparr>user := None\<rparr>"
  by (simp add: handleAnalyze_def upload_ready_def empty_world_def)

section \<open>The confidence score\<close>

text \<open>
  Claim C8, as the code has it: the confidence of the analysis result is stored in the
  row, and kept for display, exactly as the analysis function returned it; it is shown as
  \<^verbatim>\<open>Math.round(100 * c)\<close> percent when present and not zero. So a returned value within
  [0,1] is stored within [0,1] and shown within 0 to 100 percent; nothing rejects or
  clamps a value outside.
\<close>

theorem confidence_stored_as_returned:
  "upload_ok env \<Longrightarrow> analysisError env = None \<Longrightarrow> analysisData env = Some d \<Longrightarrow>
   persist_ok env \<Longrightarrow>
   (upload_runs st \<longrightarrow>
      map (\<lambda>r. confidence_score (snd r)) (plant_scans (snd (handleAnalyze env st w)))
        = map (\<lambda>r. confidence_score (snd r)) (plant_scans w) @ [confidence d] \<and>
      result (fst (handleAnalyze env st w)) = Some d) \<and>
   (scan_runs sc \<and> fetch_ok env \<longrightarrow>
      map (\<lambda>r. confidence_score (snd r)) (plant_scans (snd (analyzeImage env sc w)))
        = map (\<lambda>r. confidence_score (snd r)) (plant_scans w) @ [confidence d] \<and>
      result (fst (analyzeImage env sc w)) = Some d) \<and>
   (\<forall>c. confidence d = Some c \<and> 0 \<le> c \<and> c \<le> 1 \<longrightarrow>
      (case render_confidence (confidence d) of
         Nothing \<Rightarrow> False
       | Bare x \<Rightarrow> x = 0
       | Percent pct \<Rightarrow> 0 \<le> pct \<and> pct \<le> 100))"
proof (intro conjI impI allI)
  assume ok: "upload_ok env" "analysisError env = None" "analysisData env = Some d" "persist_ok env"
  then have aok: "analysis_ok env" and th: "thrown env = None"
    by (simp_all add: analysis_ok_def thrown_def upload_ok_def persist_ok_def)
  {
    assume "upload_runs st"
    then show "map (\<lambda>r. confidence_score (snd r)) (plant_scans (snd (handleAnalyze env st w)))
        = map (\<lambda>r. confidence_score (snd r)) (plant_scans w) @ [confidence d]"
      and "result (fst (handleAnalyze env st w)) = Some d"
      using ok aok th
      by (simp_all add: handleAnalyze_plant_scans handleAnalyze_result scan_row_def)
  }
  {
    assume "scan_runs sc \<and> fetch_ok env"
    then show "map (\<lambda>r. confidence_score (snd r)) (plant_scans (snd (analyzeImage env sc w)))
        = map (\<lambda>r. confidence_score (snd r)) (plant_scans w) @ [confidence d]"
      and "result (fst (analyzeImage env sc w)) = Some d"
      using ok aok th
      by (auto simp: analyzeImage_plant_scans analyzeImage_result scan_row_def thrown_scan_def
          fetch_ok_def split: sum.splits)
  }
  {
    fix c :: real
    assume c: "confidence d = Some c \<and> 0 \<le> c \<and> c \<le> 1"
    then have "0 \<le> c * 100 + 1 / 2" and "c * 100 + 1 / 2 < 101" by simp_all
    then have "0 \<le> Math_round (c * 100)" and "Math_round (c * 100) \<le> 100"
      unfolding Math_round_def by (simp_all add: floor_le_iff)
    then show "case render_confidence (confidence d) of
         Nothing \<Rightarrow> False
       | Bare x \<Rightarrow> x = 0
       | Percent pct \<Rightarrow> 0 \<le> pct \<and> pct \<le> 100"
      using c by (simp add: render_confidence_def)
  }
qed

text \<open>
  Claim C8, witness: the analysis function returns the confidence 0.87.
\<close>

theorem confidence_stored_as_returned_witness:
  "upload_ok (env_ok 0.87) \<and> persist_ok (env_ok 0.87) \<and> upload_runs upload_ready \<and>
   map (\<lambda>r. confidence_score (snd r))
     (plant_scans (snd (handleAnalyze (env_ok 0.87) upload_ready empty_world))) = [Some 0.87] \<and>
   render_confidence (confidence (blight 0.87)) = Percent 87"
  using confidence_stored_as_returned [where env = "env_ok 0.87" and d = "blight 0.87"
      and st = upload_ready and sc = scan_captured and w = empty_world]
  by (simp add: env_ok_def upload_ok_def persist_ok_def upload_runs_def upload_ready_def
      empty_world_def blight_def render_confidence_def Math_round_def)

text \<open>
  Claim C8, as stated, fails: a returned confidence of 87 is stored as 87 and shown as
  8700 percent.
\<close>

theorem confidence_stored_out_of_range:
  "map (\<lambda>r. confidence_score (snd r))
     (plant_scans (snd (handleAnalyze (env_ok 87) upload_ready empty_world))) = [Some 87] \<and>
   map_option confidence (result (fst (handleAnalyze (env_ok 87) upload_ready empty_world)))
     = Some (Some 87) \<and>
   render_confidence (Some 87) = Percent 8700"
  by (simp add: handleAnalyze_def finish_def stages_def Let_def env_ok_def upload_ready_def
      empty_world_def storage_upload_def functions_invoke_def db_insert_def scan_row_def
      blight_def render_confidence_def Math_round_def)

section \<open>Deleting a scan\<close>

text \<open>
  Claim C9, as the code has it: \<^verbatim>\<open>deleteScan\<close> first asks the storage to remove the object
  whose path follows \<^verbatim>\<open>/plant-images/\<close> in the row's image URL, then asks the record store
  to delete the row, whatever the storage answered. When the removal succeeds the object
  is gone, when the deletion succeeds the row is gone, and when the deletion fails the
  table is unchanged (also when the object has just been removed).
\<close>

theorem deleteScan_image_then_record:
  "at_index (js_split ''/plant-images/'' imageUrl) 1 = Some path \<Longrightarrow> path \<noteq> [] \<Longrightarrow>
   (let w' = snd (deleteScan removeError deleteError scanId imageUrl st w)
    in issued w w' = [StorageRemove [path], DbDelete scanId] \<and>
       (removeError = None \<longrightarrow> objects w' path = None) \<and>
       (deleteError = None \<longrightarrow> scanId \<notin> fst ` set (plant_scans w')) \<and>
       (deleteError \<noteq> None \<longrightarrow> plant_scans w' = plant_scans w))"
  by (auto simp: Let_def deleteScan_plant_scans deleteScan_objects truthy_def
      intro!: issued_eq simp: deleteScan_calls)

text \<open>
  Claim C9, witness: the row s1 and its image u1/17.jpg, both requests succeeding.
\<close>

theorem deleteScan_image_then_record_witness:
  "at_index (js_split ''/plant-images/'' (public_url ''u1/17.jpg'')) 1 = Some ''u1/17.jpg'' \<and>
   issued world_one (snd (deleteScan None None ''s1'' (public_url ''u1/17.jpg'') history_one world_one))
     = [StorageRemove [''u1/17.jpg''], DbDelete ''s1''] \<and>
   objects (snd (deleteScan None None ''s1'' (public_url ''u1/17.jpg'') history_one world_one))
     ''u1/17.jpg'' = None \<and>
   ''s1'' \<notin> fst ` set (plant_scans
     (snd (deleteScan None None ''s1'' (public_url ''u1/17.jpg'') history_one world_one)))"
proof -
  have p: "at_index (js_split ''/plant-images/'' (public_url ''u1/17.jpg'')) 1 = Some ''u1/17.jpg''"
    by (simp add: at_index_def js_split_def public_url_def)
  show ?thesis
    using p deleteScan_image_then_record [OF p, where removeError = None and deleteError = None
        and scanId = "''s1''" and st = history_one and w = world_one]
    by (simp add: Let_def)
qed

text \<open>
  Claim C9, as stated, fails: when the removal succeeds and the deletion of the row
  fails, the row is still in the table and its image is gone.
\<close>

theorem record_outlives_image:
  "objects world_one ''u1/17.jpg'' = Some ''bytes'' \<and>
   objects (snd (deleteScan None (Some network_down) ''s1'' (public_url ''u1/17.jpg'')
      history_one world_one)) ''u1/17.jpg'' = None \<and>
   plant_scans (snd (deleteScan None (Some network_down) ''s1'' (public_url ''u1/17.jpg'')
      history_one world_one)) = [(''s1'', row_one)] \<and>
   image_url row_one = public_url ''u1/17.jpg''"
  by (simp add: deleteScan_def Let_def storage_remove_def db_delete_def world_one_def
      empty_world_def at_index_def js_split_def public_url_def truthy_def row_one_def scan_row_def)

section \<open>The in-progress flag\<close>

text \<open>
  Claim C10: every run of an analyze handler that passes the guard, whatever stage fails
  or whether all succeed, ends with \<^verbatim>\<open>analyzing\<close> false; a call stopped by the guard leaves
  the flag as it was, so false when no run was in progress. The identity is kept, so the
  handler can be invoked again with a fresh image.
\<close>

theorem analyzing_reset:
  "(upload_runs st \<or> \<not> analyzing st \<longrightarrow> \<not> analyzing (fst (handleAnalyze env st w))) \<and>
   (scan_runs sc \<or> \<not> analyzing sc \<longrightarrow> \<not> analyzing (fst (analyzeImage env sc w))) \<and>
   user (fst (handleAnalyze env st w)) = user st \<and>
   user (fst (analyzeImage env sc w)) = user sc"
proof -
  have a: "\<not> analyzing (fst (handleAnalyze env st w))" if "upload_runs st"
    using that by (auto simp: upload_runs_def handleAnalyze_runs finish_page)
  have b: "\<not> analyzing (fst (analyzeImage env sc w))" if "scan_runs sc"
    using that by (cases "fetched env")
      (auto simp: scan_runs_def analyzeImage_runs analyzeImage_fetch_fails finish_page)
  have c: "user (fst (handleAnalyze env st w)) = user st"
    by (cases "upload_runs st")
      (auto simp: upload_runs_def handleAnalyze_runs handleAnalyze_skips finish_page)
  have d: "user (fst (analyzeImage env sc w)) = user sc"
    by (cases "scan_runs sc"; cases "fetched env")
      (auto simp: scan_runs_def analyzeImage_runs analyzeImage_fetch_fails analyzeImage_skips finish_page)
  have a': "\<not> analyzing (fst (handleAnalyze env st w))" if "\<not> upload_runs st" "\<not> analyzing st"
    using that by (simp add: handleAnalyze_skips)
  have b': "\<not> analyzing (fst (analyzeImage env sc w))" if "\<not> scan_runs sc" "\<not> analyzing sc"
    using that by (simp add: analyzeImage_skips)
  show ?thesis
    using a a' b b' c d by blast
qed

text \<open>
  Claim C10, witness: on each page, a run whose upload fails.
\<close>

theorem analyzing_reset_witness:
  "upload_runs upload_ready \<and>
   \<not> analyzing (fst (handleAnalyze ((env_ok 1)\<lparr>uploadError := Some (Error None)\<rparr>) upload_ready empty_world)) \<and>
   scan_runs scan_captured \<and>
   \<not> analyzing (fst (analyzeImage ((env_ok 1)\<lparr>uploadError := Some (Error None)\<rparr>) scan_captured empty_world))"
  using analyzing_reset [where st = upload_ready and sc = scan_captured and w = empty_world
      and env = "(env_ok 1)\<lparr>uploadError := Some (Error None)\<rparr>"]
  by (simp add: upload_runs_def scan_runs_def upload_ready_def scan_captured_def scan_idle_def
      truthy_def)

end
